theory Spec2Isabelle
  imports Complex_Main "HOL-Library.Word"
begin

section \<open>Strings of the source language\<close>

text \<open>
  The component is TypeScript: a string is a sequence of UTF-16 code units. The regular
  expressions of \<^verbatim>\<open>extractAndParseJSON\<close> have no \<^verbatim>\<open>u\<close> flag, so they work on
  code units, and two of them (\<^verbatim>\<open>.\<close>, \<^verbatim>\<open>$\<close> under \<^verbatim>\<open>m\<close>, \<^verbatim>\<open>\s\<close>) distinguish
  code units above the ASCII range.
\<close>

type_synonym jschar = "16 word"
type_synonym jsstring = "jschar list"

definition js :: "string \<Rightarrow> jsstring" where
  \<comment> \<open>an ASCII literal of the source as a string of code units\<close>
  "js s = map of_char s"

abbreviation lbrace :: jschar where "lbrace \<equiv> 0x7B"
abbreviation rbrace :: jschar where "rbrace \<equiv> 0x7D"
abbreviation lbrack :: jschar where "lbrack \<equiv> 0x5B"
abbreviation rbrack :: jschar where "rbrack \<equiv> 0x5D"
abbreviation comma :: jschar where "comma \<equiv> 0x2C"
abbreviation colon :: jschar where "colon \<equiv> 0x3A"
abbreviation slash :: jschar where "slash \<equiv> 0x2F"
abbreviation backslash :: jschar where "backslash \<equiv> 0x5C"
abbreviation dquote :: jschar where "dquote \<equiv> 0x22"

definition isLineTerminator :: "jschar \<Rightarrow> bool" where
  \<comment> \<open>the code units that \<^verbatim>\<open>.\<close> refuses and before which \<^verbatim>\<open>$\<close> matches under \<^verbatim>\<open>m\<close>:
      LF, CR, LINE SEPARATOR, PARAGRAPH SEPARATOR\<close>
  "isLineTerminator c \<longleftrightarrow> c = 0x0A \<or> c = 0x0D \<or> c = 0x2028 \<or> c = 0x2029"

definition isRegExpSpace :: "jschar \<Rightarrow> bool" where
  \<comment> \<open>the class \<^verbatim>\<open>\s\<close>: WhiteSpace and LineTerminator of ECMAScript\<close>
  "isRegExpSpace c \<longleftrightarrow>
     c = 0x09 \<or> c = 0x0A \<or> c = 0x0B \<or> c = 0x0C \<or> c = 0x0D \<or> c = 0x20 \<or> c = 0xA0 \<or>
     c = 0x1680 \<or> (0x2000 \<le> c \<and> c \<le> 0x200A) \<or> c = 0x2028 \<or> c = 0x2029 \<or>
     c = 0x202F \<or> c = 0x205F \<or> c = 0x3000 \<or> c = 0xFEFF"

section \<open>Extraction: \<^verbatim>\<open>str.match(/{[\s\S]*}/)\<close>\<close>

text \<open>
  \<^verbatim>\<open>[\s\S]*}\<close> anchored at the head of the text: the star is greedy, so the matcher first
  lets it take the next code unit and only when the rest cannot be matched falls back to
  closing with \<^verbatim>\<open>}\<close> here. The result is the matched text.
\<close>

fun match_rest :: "jsstring \<Rightarrow> jsstring option" where
  "match_rest [] = None"
| "match_rest (c # cs) =
     (case match_rest cs of
        Some m \<Rightarrow> Some (c # m)
      | None \<Rightarrow> if c = rbrace then Some [c] else None)"

text \<open>
  \<^verbatim>\<open>str.match(re)\<close> without the \<^verbatim>\<open>g\<close> flag tries the start positions from the left and
  returns the first match; \<^verbatim>\<open>jsonMatch[0]\<close> is the matched text, \<^verbatim>\<open>null\<close> is \<open>None\<close>.
\<close>

fun match_object :: "jsstring \<Rightarrow> jsstring option" where
  "match_object [] = None"
| "match_object (c # cs) =
     (if c = lbrace
      then (case match_rest cs of
              Some m \<Rightarrow> Some (c # m)
            | None \<Rightarrow> match_object cs)
      else match_object cs)"

section \<open>Repair: the three \<^verbatim>\<open>replace\<close> calls\<close>

text \<open>
  \<^verbatim>\<open>.replace(/\/\/.*$/gm, '')\<close>: scanning from the left, at the first position holding two
  slashes the match runs over every code unit that is not a line terminator (greedy
  \<^verbatim>\<open>.*\<close>); it stops at the end of the text or before a line terminator, where \<^verbatim>\<open>$\<close>
  holds under the \<^verbatim>\<open>m\<close> flag. The match is replaced by the empty string and the scan
  goes on behind it.
\<close>

function strip_comments :: "jsstring \<Rightarrow> jsstring" where
  "strip_comments [] = []"
| "strip_comments [c] = [c]"
| "strip_comments (c # d # cs) =
     (if c = slash \<and> d = slash
      then strip_comments (dropWhile (\<lambda>x. \<not> isLineTerminator x) cs)
      else c # strip_comments (d # cs))"
  by pat_completeness auto
termination
  by (relation "measure length") (auto simp: less_Suc_eq_le le_SucI length_dropWhile_le)

text \<open>
  \<^verbatim>\<open>.replace(/,\s*}/g, '}')\<close> and \<^verbatim>\<open>.replace(/,\s*]/g, ']')\<close>, with the closing
  bracket \<open>cl\<close> as a parameter: at a comma, greedy \<^verbatim>\<open>\s*\<close> runs over the white space
  behind it; the match succeeds when the next code unit is \<open>cl\<close> (backtracking cannot
  help, \<open>cl\<close> is no white space) and is replaced by \<open>cl\<close> alone.
\<close>

function drop_trailing_comma :: "jschar \<Rightarrow> jsstring \<Rightarrow> jsstring" where
  "drop_trailing_comma cl [] = []"
| "drop_trailing_comma cl (c # cs) =
     (if c = comma
      then (case dropWhile isRegExpSpace cs of
              [] \<Rightarrow> c # drop_trailing_comma cl cs
            | d # ds \<Rightarrow>
                if d = cl then cl # drop_trailing_comma cl ds
                else c # drop_trailing_comma cl cs)
      else c # drop_trailing_comma cl cs)"
  by pat_completeness auto
termination
proof (relation "measure (\<lambda>(cl, s). length s)", goal_cases)
  case 1
  show ?case by simp
next
  case (2 cl c cs)
  show ?case by simp
next
  case (3 cl c cs d ds)
  have "length (dropWhile isRegExpSpace cs) \<le> length cs" by (rule length_dropWhile_le)
  with 3 show ?case by simp
next
  case (4 cl c cs d ds)
  show ?case by simp
next
  case (5 cl c cs)
  show ?case by simp
qed

definition repair :: "jsstring \<Rightarrow> jsstring" where
  "repair m = drop_trailing_comma rbrack (drop_trailing_comma rbrace (strip_comments m))"

section \<open>Values of the source language and \<^verbatim>\<open>JSON.parse\<close>\<close>

text \<open>
  \<^verbatim>\<open>JSON.parse\<close> is a built-in of the language, not code of the component; it is
  modelled here after the JSON grammar (ECMA-404), which is what the built-in accepts.
  The values it can return, and \<^verbatim>\<open>undefined\<close>, which reading an absent property gives,
  make up \<open>jsval\<close>. An object is the list of its own properties in insertion order.
  Numbers are kept as the exact value of their JSON literal: the rounding of IEEE-754
  doubles is not part of this model, so a literal that a double rounds, lets underflow to
  zero or overflow to \<^verbatim>\<open>Infinity\<close> keeps its exact value here. No statement below is
  about such a literal.
\<close>

datatype jsval =
    JUndefined
  | JNull
  | JBool bool
  | JNum rat
  | JStr jsstring
  | JArr "jsval list"
  | JObj "(jsstring \<times> jsval) list"

datatype token =
    TLBrace | TRBrace | TLBrack | TRBrack | TColon | TComma
  | TString jsstring | TNumber rat | TTrue | TFalse | TNull

subsection \<open>Number literals\<close>

definition isDigit :: "jschar \<Rightarrow> bool" where
  "isDigit c \<longleftrightarrow> 0x30 \<le> c \<and> c \<le> 0x39"

definition digits_value :: "jsstring \<Rightarrow> nat" where
  "digits_value ds = foldl (\<lambda>n c. 10 * n + (unat c - 48)) 0 ds"

definition scale10 :: "rat \<Rightarrow> int \<Rightarrow> rat" where
  "scale10 r e = (if 0 \<le> e then r * 10 ^ nat e else r / 10 ^ nat (- e))"

text \<open>
  The JSON grammar of a number: an optional minus, an integer part without a leading
  zero, an optional fraction with at least one digit, an optional exponent with an
  optional sign and at least one digit. \<open>None\<close> when the text is no number.
\<close>

definition parse_exponent :: "jsstring \<Rightarrow> int option" where
  "parse_exponent s =
     (case s of
        [] \<Rightarrow> Some 0
      | c # r \<Rightarrow>
          if c = 0x65 \<or> c = 0x45
          then (let (neg, ds) = (case r of
                                   [] \<Rightarrow> (False, [])
                                 | d # r' \<Rightarrow> if d = 0x2D then (True, r')
                                             else if d = 0x2B then (False, r')
                                             else (False, r))
                in if ds = [] \<or> \<not> list_all isDigit ds then None
                   else Some (if neg then - int (digits_value ds) else int (digits_value ds)))
          else None)"

definition parse_fraction :: "jsstring \<Rightarrow> (rat \<times> jsstring) option" where
  "parse_fraction s =
     (case s of
        [] \<Rightarrow> Some (0, [])
      | c # r \<Rightarrow>
          if c = 0x2E
          then (let fs = takeWhile isDigit r
                in if fs = [] then None
                   else Some (of_nat (digits_value fs) / 10 ^ length fs, dropWhile isDigit r))
          else Some (0, s))"

definition parse_number :: "jsstring \<Rightarrow> rat option" where
  "parse_number s =
     (let (neg, s1) = (case s of
                         [] \<Rightarrow> (False, [])
                       | c # r \<Rightarrow> if c = 0x2D then (True, r) else (False, s));
          ip = takeWhile isDigit s1
      in if ip = [] \<or> (1 < length ip \<and> hd ip = 0x30) then None
         else (case parse_fraction (dropWhile isDigit s1) of
                 None \<Rightarrow> None
               | Some (f, s2) \<Rightarrow>
                   (case parse_exponent s2 of
                      None \<Rightarrow> None
                    | Some e \<Rightarrow>
                        let v = scale10 (of_nat (digits_value ip) + f) e
                        in Some (if neg then - v else v))))"

subsection \<open>Tokens\<close>

definition isJSONSpace :: "jschar \<Rightarrow> bool" where
  \<comment> \<open>the white space of the JSON grammar: tab, LF, CR, space\<close>
  "isJSONSpace c \<longleftrightarrow> c = 0x09 \<or> c = 0x0A \<or> c = 0x0D \<or> c = 0x20"

definition punct :: "jschar \<Rightarrow> token option" where
  "punct c =
     (if c = lbrace then Some TLBrace else if c = rbrace then Some TRBrace
      else if c = lbrack then Some TLBrack else if c = rbrack then Some TRBrack
      else if c = colon then Some TColon else if c = comma then Some TComma
      else None)"

definition atom_token :: "jsstring \<Rightarrow> token option" where
  \<comment> \<open>a maximal run of code units that are no white space, quote or punctuation\<close>
  "atom_token a =
     (if a = js ''true'' then Some TTrue
      else if a = js ''false'' then Some TFalse
      else if a = js ''null'' then Some TNull
      else map_option TNumber (parse_number a))"

definition escape_char :: "jschar \<Rightarrow> jschar option" where
  \<comment> \<open>the single-character escapes of a JSON string\<close>
  "escape_char c =
     (if c = dquote \<or> c = backslash \<or> c = slash then Some c
      else if c = 0x62 then Some 0x08
      else if c = 0x66 then Some 0x0C
      else if c = 0x6E then Some 0x0A
      else if c = 0x72 then Some 0x0D
      else if c = 0x74 then Some 0x09
      else None)"

definition hex_value :: "jschar \<Rightarrow> nat option" where
  "hex_value c =
     (if 0x30 \<le> c \<and> c \<le> 0x39 then Some (unat c - 48)
      else if 0x41 \<le> c \<and> c \<le> 0x46 then Some (unat c - 55)
      else if 0x61 \<le> c \<and> c \<le> 0x66 then Some (unat c - 87)
      else None)"

datatype lexmode =
    Plain
  | Atom jsstring
  | Str jsstring
  | Esc jsstring
  | Hex jsstring "nat list"

text \<open>
  The tokens of a JSON text, read one code unit at a time; the accumulators hold what has
  been read of the current token, last code unit first. \<open>None\<close> is a SyntaxError.
  Two values with nothing between them are never valid JSON, so reading an atom to the
  next white space, quote or punctuation loses no valid text; the code unit that ends an
  atom is then read as it is in \<open>Plain\<close> mode.
\<close>

fun json_lex :: "lexmode \<Rightarrow> jsstring \<Rightarrow> token list option" where
  "json_lex Plain [] = Some []"
| "json_lex (Atom a) [] = map_option (\<lambda>t. [t]) (atom_token (rev a))"
| "json_lex (Str a) [] = None"
| "json_lex (Esc a) [] = None"
| "json_lex (Hex a ds) [] = None"
| "json_lex Plain (c # cs) =
     (if isJSONSpace c then json_lex Plain cs
      else if c = dquote then json_lex (Str []) cs
      else (case punct c of
              Some t \<Rightarrow> map_option ((#) t) (json_lex Plain cs)
            | None \<Rightarrow> json_lex (Atom [c]) cs))"
| "json_lex (Atom a) (c # cs) =
     (if isJSONSpace c \<or> c = dquote \<or> punct c \<noteq> None
      then (case atom_token (rev a) of
              None \<Rightarrow> None
            | Some t \<Rightarrow>
                map_option ((#) t)
                  (if isJSONSpace c then json_lex Plain cs
                   else if c = dquote then json_lex (Str []) cs
                   else (case punct c of
                           Some p \<Rightarrow> map_option ((#) p) (json_lex Plain cs)
                         | None \<Rightarrow> None)))
      else json_lex (Atom (c # a)) cs)"
| "json_lex (Str a) (c # cs) =
     (if c = dquote then map_option ((#) (TString (rev a))) (json_lex Plain cs)
      else if c = backslash then json_lex (Esc a) cs
      else if c < 0x20 then None
      else json_lex (Str (c # a)) cs)"
| "json_lex (Esc a) (c # cs) =
     (if c = 0x75 then json_lex (Hex a []) cs
      else (case escape_char c of
              None \<Rightarrow> None
            | Some e \<Rightarrow> json_lex (Str (e # a)) cs))"
| "json_lex (Hex a ds) (c # cs) =
     (case hex_value c of
        None \<Rightarrow> None
      | Some d \<Rightarrow>
          if length ds = 3
          then json_lex (Str (of_nat (foldl (\<lambda>n h. 16 * n + h) 0 (ds @ [d])) # a)) cs
          else json_lex (Hex a (ds @ [d])) cs)"

subsection \<open>The grammar of values\<close>

text \<open>
  A later member with the same name replaces the value of the earlier one and keeps its
  place, as \<^verbatim>\<open>JSON.parse\<close> does when it defines the property again.
\<close>

fun put_member :: "jsstring \<Rightarrow> jsval \<Rightarrow> (jsstring \<times> jsval) list \<Rightarrow> (jsstring \<times> jsval) list" where
  "put_member k v [] = [(k, v)]"
| "put_member k v (p # ps) = (if fst p = k then (k, v) # ps else p # put_member k v ps)"

datatype frame =
    InArr "jsval list"
  | InObj "(jsstring \<times> jsval) list" "jsstring option"

datatype expect =
    XValue
  | XValueOrEnd
  | XKey
  | XKeyOrEnd
  | XColon
  | XCommaOrEnd
  | XDone jsval

text \<open>
  The parser keeps the containers that are still open (innermost first) and what the
  grammar allows next. A finished value goes into the innermost open container, or is
  the result when none is open.
\<close>

fun give :: "jsval \<Rightarrow> frame list \<Rightarrow> (expect \<times> frame list) option" where
  "give v [] = Some (XDone v, [])"
| "give v (InArr es # st) = Some (XCommaOrEnd, InArr (es @ [v]) # st)"
| "give v (InObj ms (Some k) # st) = Some (XCommaOrEnd, InObj (put_member k v ms) None # st)"
| "give v (InObj ms None # st) = None"

fun scalar :: "token \<Rightarrow> jsval option" where
  "scalar (TString s) = Some (JStr s)"
| "scalar (TNumber n) = Some (JNum n)"
| "scalar TTrue = Some (JBool True)"
| "scalar TFalse = Some (JBool False)"
| "scalar TNull = Some JNull"
| "scalar _ = None"

fun start_value :: "token \<Rightarrow> frame list \<Rightarrow> (expect \<times> frame list) option" where
  "start_value TLBrack st = Some (XValueOrEnd, InArr [] # st)"
| "start_value TLBrace st = Some (XKeyOrEnd, InObj [] None # st)"
| "start_value t st = (case scalar t of None \<Rightarrow> None | Some v \<Rightarrow> give v st)"

fun close_container :: "token \<Rightarrow> frame list \<Rightarrow> (expect \<times> frame list) option" where
  "close_container TRBrack (InArr es # st) = give (JArr es) st"
| "close_container TRBrace (InObj ms None # st) = give (JObj ms) st"
| "close_container _ _ = None"

fun parse_step :: "expect \<Rightarrow> frame list \<Rightarrow> token \<Rightarrow> (expect \<times> frame list) option" where
  "parse_step XValue st t = start_value t st"
| "parse_step XValueOrEnd st t =
     (if t = TRBrack then close_container t st else start_value t st)"
| "parse_step XKey (InObj ms None # st) (TString k) = Some (XColon, InObj ms (Some k) # st)"
| "parse_step XKey st t = None"
| "parse_step XKeyOrEnd (InObj ms None # st) (TString k) = Some (XColon, InObj ms (Some k) # st)"
| "parse_step XKeyOrEnd st t = (if t = TRBrace then close_container t st else None)"
| "parse_step XColon st t = (if t = TColon then Some (XValue, st) else None)"
| "parse_step XCommaOrEnd (InArr es # st) TComma = Some (XValue, InArr es # st)"
| "parse_step XCommaOrEnd (InObj ms None # st) TComma = Some (XKey, InObj ms None # st)"
| "parse_step XCommaOrEnd st t = close_container t st"
| "parse_step (XDone v) st t = None"

fun parse_tokens :: "expect \<Rightarrow> frame list \<Rightarrow> token list \<Rightarrow> jsval option" where
  "parse_tokens (XDone v) [] [] = Some v"
| "parse_tokens x st [] = None"
| "parse_tokens x st (t # ts) =
     (case parse_step x st t of
        None \<Rightarrow> None
      | Some (x', st') \<Rightarrow> parse_tokens x' st' ts)"

definition JSON_parse :: "jsstring \<Rightarrow> jsval option" where
  \<comment> \<open>\<^verbatim>\<open>JSON.parse(text)\<close> without a reviver; \<open>None\<close> is the SyntaxError it throws\<close>
  "JSON_parse s =
     (case json_lex Plain s of
        None \<Rightarrow> None
      | Some ts \<Rightarrow> parse_tokens XValue [] ts)"

section \<open>\<^verbatim>\<open>extractAndParseJSON\<close>\<close>

text \<open>
  What a \<^verbatim>\<open>throw\<close> can carry to the handler of \<^verbatim>\<open>analyzeProject\<close>: an instance of
  \<^verbatim>\<open>Error\<close> with its message, a \<^verbatim>\<open>TypeError\<close> raised by the engine (an instance of
  \<^verbatim>\<open>Error\<close> too, whose message is worded by the engine), or a value that is no instance of
  \<^verbatim>\<open>Error\<close>.
\<close>

datatype type_error =
    ReadOfNullish jsval jsstring
  | NotAFunction jsstring

datatype thrown =
    ErrorObj jsstring
  | TypeErrorObj type_error
  | NonError

text \<open>
  The function of the source. The \<^verbatim>\<open>catch\<close> around \<^verbatim>\<open>JSON.parse\<close> turns its
  SyntaxError into the value \<^verbatim>\<open>null\<close>; what it writes to the console is not modelled.
\<close>

definition extractAndParseJSON :: "jsstring \<Rightarrow> thrown + jsval" where
  "extractAndParseJSON str =
     (case match_object str of
        None \<Rightarrow> Inl (ErrorObj (js ''JSON object not found.''))
      | Some jsonMatch \<Rightarrow>
          (let cleaned = repair jsonMatch
           in case JSON_parse cleaned of
                Some v \<Rightarrow> Inr v
              | None \<Rightarrow> Inr JNull))"

section \<open>The mapping onto \<^verbatim>\<open>ProjectDetails\<close>\<close>

text \<open>
  The type annotations of TypeScript are erased when the component runs: every field
  holds whatever value the expression of the source gives.
\<close>

record Material =
  m_id :: jsval
  m_name :: jsval
  m_unit :: jsval
  m_costPerUnit :: jsval
  m_quantity :: jsval
  m_description :: jsval

record LaborItem =
  l_id :: jsval
  l_role :: jsval
  l_costPerHour :: jsval
  l_hours :: jsval
  l_description :: jsval

record ProjectDetails =
  p_projectName :: jsval
  p_length :: jsval
  p_width :: jsval
  p_height :: jsval
  p_materials :: "Material list"
  p_labor :: "LaborItem list"

text \<open>
  Reading \<^verbatim>\<open>v.k\<close>. On \<^verbatim>\<open>null\<close> and \<^verbatim>\<open>undefined\<close> the engine throws a TypeError. The
  names the component reads are \<^verbatim>\<open>projectName\<close>, \<^verbatim>\<open>length\<close>, \<^verbatim>\<open>width\<close>, \<^verbatim>\<open>height\<close>,
  \<^verbatim>\<open>materials\<close>, \<^verbatim>\<open>labor\<close>, \<^verbatim>\<open>materialId\<close>, \<^verbatim>\<open>laborId\<close>, \<^verbatim>\<open>name\<close>, \<^verbatim>\<open>unit\<close>,
  \<^verbatim>\<open>costPerUnit\<close>, \<^verbatim>\<open>quantity\<close>, \<^verbatim>\<open>role\<close>, \<^verbatim>\<open>costPerHour\<close>, \<^verbatim>\<open>hours\<close> and
  \<^verbatim>\<open>description\<close>; of these the built-in prototypes define only the \<^verbatim>\<open>length\<close> of
  strings and arrays, so for these names every other read is a read of an own property.
\<close>

fun get_prop :: "jsval \<Rightarrow> jsstring \<Rightarrow> type_error + jsval" where
  "get_prop JUndefined k = Inl (ReadOfNullish JUndefined k)"
| "get_prop JNull k = Inl (ReadOfNullish JNull k)"
| "get_prop (JObj ms) k = Inr (case map_of ms k of Some v \<Rightarrow> v | None \<Rightarrow> JUndefined)"
| "get_prop (JArr xs) k =
     Inr (if k = js ''length'' then JNum (of_nat (length xs)) else JUndefined)"
| "get_prop (JStr s) k =
     Inr (if k = js ''length'' then JNum (of_nat (length s)) else JUndefined)"
| "get_prop (JBool b) k = Inr JUndefined"
| "get_prop (JNum n) k = Inr JUndefined"

fun truthy :: "jsval \<Rightarrow> bool" where
  "truthy JUndefined = False"
| "truthy JNull = False"
| "truthy (JBool b) = b"
| "truthy (JNum n) = (n \<noteq> 0)"
| "truthy (JStr s) = (s \<noteq> [])"
| "truthy (JArr xs) = True"
| "truthy (JObj ms) = True"

definition or_default :: "jsval \<Rightarrow> jsval \<Rightarrow> jsval" where
  \<comment> \<open>\<^verbatim>\<open>v || d\<close> for a constant \<open>d\<close>\<close>
  "or_default v d = (if truthy v then v else d)"

text \<open>
  \<^verbatim>\<open>crypto.randomUUID()\<close> returns a string of 36 code units. The identifiers it hands
  out are a parameter of the model: \<open>g k\<close> is what call number \<open>k\<close> returns, and the state
  is the number of calls made so far.
\<close>

typedef uuid = "{s :: jsstring. length s = 36}"
proof
  show "replicate 36 0x30 \<in> {s :: jsstring. length s = 36}" by simp
qed

type_synonym rng = "nat \<Rightarrow> uuid"

definition randomUUID :: "rng \<Rightarrow> nat \<Rightarrow> jsval \<times> nat" where
  "randomUUID g n = (JStr (Rep_uuid (g n)), Suc n)"

definition or_randomUUID :: "jsval \<Rightarrow> rng \<Rightarrow> nat \<Rightarrow> jsval \<times> nat" where
  \<comment> \<open>\<^verbatim>\<open>v || crypto.randomUUID()\<close>: the call is made only when \<open>v\<close> is falsy\<close>
  "or_randomUUID v g n = (if truthy v then (v, n) else randomUUID g n)"

definition and_then :: "'e + 'a \<Rightarrow> ('a \<Rightarrow> 'e + 'b) \<Rightarrow> 'e + 'b" where
  "and_then r f = (case r of Inl e \<Rightarrow> Inl e | Inr x \<Rightarrow> f x)"

text \<open>The two arrow functions given to \<^verbatim>\<open>map\<close>, their fields in the order of the source.\<close>

definition map_material :: "rng \<Rightarrow> jsval \<Rightarrow> nat \<Rightarrow> type_error + (Material \<times> nat)" where
  "map_material g m n =
     and_then (get_prop m (js ''materialId'')) (\<lambda>v_id.
       case or_randomUUID v_id g n of (i, n') \<Rightarrow>
     and_then (get_prop m (js ''name'')) (\<lambda>v_name.
     and_then (get_prop m (js ''unit'')) (\<lambda>v_unit.
     and_then (get_prop m (js ''costPerUnit'')) (\<lambda>v_cost.
     and_then (get_prop m (js ''quantity'')) (\<lambda>v_quantity.
     and_then (get_prop m (js ''description'')) (\<lambda>v_description.
       Inr (\<lparr>m_id = i,
             m_name = or_default v_name (JStr (js ''Material'')),
             m_unit = or_default v_unit (JStr (js ''unit'')),
             m_costPerUnit = or_default v_cost (JNum 0),
             m_quantity = v_quantity,
             m_description = or_default v_description (JStr [])\<rparr>, n')))))))"

definition map_labor :: "rng \<Rightarrow> jsval \<Rightarrow> nat \<Rightarrow> type_error + (LaborItem \<times> nat)" where
  "map_labor g l n =
     and_then (get_prop l (js ''laborId'')) (\<lambda>v_id.
       case or_randomUUID v_id g n of (i, n') \<Rightarrow>
     and_then (get_prop l (js ''role'')) (\<lambda>v_role.
     and_then (get_prop l (js ''costPerHour'')) (\<lambda>v_cost.
     and_then (get_prop l (js ''hours'')) (\<lambda>v_hours.
     and_then (get_prop l (js ''description'')) (\<lambda>v_description.
       Inr (\<lparr>l_id = i,
             l_role = or_default v_role (JStr (js ''Labor'')),
             l_costPerHour = or_default v_cost (JNum 0),
             l_hours = v_hours,
             l_description = or_default v_description (JStr [])\<rparr>, n'))))))"

text \<open>
  \<^verbatim>\<open>Array.prototype.map\<close> on the elements of an array, left to right, with the count of
  identifiers handed from one call of the arrow function to the next.
\<close>

fun map_items ::
  "(jsval \<Rightarrow> nat \<Rightarrow> type_error + ('a \<times> nat)) \<Rightarrow> jsval list \<Rightarrow> nat \<Rightarrow> type_error + ('a list \<times> nat)"
where
  "map_items f [] n = Inr ([], n)"
| "map_items f (x # xs) n =
     (case f x n of
        Inl e \<Rightarrow> Inl e
      | Inr (y, n') \<Rightarrow>
          (case map_items f xs n' of
             Inl e \<Rightarrow> Inl e
           | Inr (ys, n'') \<Rightarrow> Inr (y # ys, n'')))"

text \<open>
  \<^verbatim>\<open>parsedEstimation.p.map(f)\<close>, given the value \<open>recv\<close> of \<^verbatim>\<open>parsedEstimation.p\<close>: only
  an array has a callable \<^verbatim>\<open>map\<close>; no value that \<^verbatim>\<open>JSON.parse\<close> returns is a function.
\<close>

definition call_map ::
  "jsstring \<Rightarrow> jsval \<Rightarrow> (jsval \<Rightarrow> nat \<Rightarrow> type_error + ('a \<times> nat)) \<Rightarrow> nat \<Rightarrow> type_error + ('a list \<times> nat)"
where
  "call_map p recv f n =
     (case recv of
        JArr xs \<Rightarrow> map_items f xs n
      | JUndefined \<Rightarrow> Inl (ReadOfNullish JUndefined (js ''map''))
      | JNull \<Rightarrow> Inl (ReadOfNullish JNull (js ''map''))
      | _ \<Rightarrow> Inl (NotAFunction p))"

text \<open>The object literal \<^verbatim>\<open>transformedEstimation\<close>, its fields evaluated in order.\<close>

definition transform :: "rng \<Rightarrow> jsval \<Rightarrow> nat \<Rightarrow> type_error + (ProjectDetails \<times> nat)" where
  "transform g parsedEstimation n =
     and_then (get_prop parsedEstimation (js ''projectName'')) (\<lambda>v_projectName.
     and_then (get_prop parsedEstimation (js ''length'')) (\<lambda>v_length.
     and_then (get_prop parsedEstimation (js ''width'')) (\<lambda>v_width.
     and_then (get_prop parsedEstimation (js ''height'')) (\<lambda>v_height.
     and_then (get_prop parsedEstimation (js ''materials'')) (\<lambda>v_materials.
     and_then (call_map (js ''materials'') v_materials (map_material g) n) (\<lambda>(ms, n1).
     and_then (get_prop parsedEstimation (js ''labor'')) (\<lambda>v_labor.
     and_then (call_map (js ''labor'') v_labor (map_labor g) n1) (\<lambda>(ls, n2).
       Inr (\<lparr>p_projectName = v_projectName,
             p_length = v_length,
             p_width = v_width,
             p_height = v_height,
             p_materials = ms,
             p_labor = ls\<rparr>, n2)))))))))"

section \<open>\<^verbatim>\<open>analyzeProject\<close>\<close>

text \<open>
  The state the component keeps (\<^verbatim>\<open>isLoading\<close>, \<^verbatim>\<open>error\<close>, \<^verbatim>\<open>estimation\<close>) and the
  calls of \<^verbatim>\<open>onEstimationComplete\<close> made so far, oldest first.
\<close>

record state =
  isLoading :: bool
  error :: jsstring
  estimation :: "ProjectDetails option"
  delivered :: "ProjectDetails list"

definition handler_message :: "(type_error \<Rightarrow> jsstring) \<Rightarrow> thrown \<Rightarrow> jsstring" where
  \<comment> \<open>\<^verbatim>\<open>err instanceof Error ? err.message : 'Failed to analyze project. Please try again.'\<close>\<close>
  "handler_message engine err =
     (case err of
        ErrorObj msg \<Rightarrow> msg
      | TypeErrorObj te \<Rightarrow> engine te
      | NonError \<Rightarrow> js ''Failed to analyze project. Please try again.'')"

text \<open>
  One run of \<^verbatim>\<open>analyzeProject\<close>. The request to the service is outside the component:
  \<open>response\<close> is its outcome, the text of the model or what the awaited call threw.
  \<open>engine\<close> words the message of a TypeError, \<open>g\<close> holds the identifiers
  \<^verbatim>\<open>crypto.randomUUID()\<close> returns during the run. The callback is taken to return
  normally.
\<close>

definition try_body :: "rng \<Rightarrow> thrown + jsstring \<Rightarrow> thrown + ProjectDetails" where
  "try_body g response =
     (case response of
        Inl err \<Rightarrow> Inl err
      | Inr text \<Rightarrow>
          (case extractAndParseJSON text of
             Inl err \<Rightarrow> Inl err
           | Inr parsedEstimation \<Rightarrow>
               (case transform g parsedEstimation 0 of
                  Inl te \<Rightarrow> Inl (TypeErrorObj te)
                | Inr (transformedEstimation, n) \<Rightarrow> Inr transformedEstimation)))"

definition analyzeProject ::
  "(type_error \<Rightarrow> jsstring) \<Rightarrow> rng \<Rightarrow> thrown + jsstring \<Rightarrow> state \<Rightarrow> state"
where
  "analyzeProject engine g response st =
     (let st1 = st\<lparr>isLoading := True, error := [], estimation := None\<rparr>;
          st2 = (case try_body g response of
                   Inr transformedEstimation \<Rightarrow>
                     st1\<lparr>estimation := Some transformedEstimation,
                         delivered := delivered st1 @ [transformedEstimation]\<rparr>
                 | Inl err \<Rightarrow> st1\<lparr>error := handler_message engine err\<rparr>)
      in st2\<lparr>isLoading := False\<rparr>)"

subsection \<open>The output format the prompt asks for\<close>

text \<open>
  The prompt built by \<^verbatim>\<open>analyzeProject\<close> shows the model the JSON it has to answer with;
  these are the field names it lists for an entry of \<^verbatim>\<open>materials\<close> and for an entry of
  \<^verbatim>\<open>labor\<close>.
\<close>

definition material_schema :: "jsstring list" where
  "material_schema =
     [js ''id'', js ''name'', js ''unit'', js ''costPerUnit'', js ''quantity'', js ''description'']"

definition labor_schema :: "jsstring list" where
  "labor_schema = [js ''id'', js ''role'', js ''costPerHour'', js ''hours'', js ''description'']"

section \<open>Notions of the specification\<close>

text \<open>
  The specification describes the extraction by positions: the first \<^verbatim>\<open>{\<close> of the text
  and the last \<^verbatim>\<open>}\<close> of the text, the candidate being everything from the one to the
  other, both included, when the first lies before the second.
\<close>

fun first_index :: "'a \<Rightarrow> 'a list \<Rightarrow> nat option" where
  "first_index c [] = None"
| "first_index c (x # xs) = (if x = c then Some 0 else map_option Suc (first_index c xs))"

definition last_index :: "'a \<Rightarrow> 'a list \<Rightarrow> nat option" where
  "last_index c xs = map_option (\<lambda>k. length xs - 1 - k) (first_index c (rev xs))"

definition spec_span :: "jsstring \<Rightarrow> jsstring option" where
  "spec_span s =
     (case (first_index lbrace s, last_index rbrace s) of
        (Some i, Some j) \<Rightarrow> if i < j then Some (take (Suc j - i) (drop i s)) else None
      | _ \<Rightarrow> None)"

text \<open>
  A balanced span opens with \<^verbatim>\<open>{\<close> and ends with the \<^verbatim>\<open>}\<close> that closes it:
  \<open>closes_at_end d cs\<close> holds when, with \<open>d\<close> braces open, the last brace is closed by the
  last code unit of \<open>cs\<close> and not before.
\<close>

fun closes_at_end :: "nat \<Rightarrow> jsstring \<Rightarrow> bool" where
  "closes_at_end d [] = False"
| "closes_at_end d (c # cs) =
     (if c = lbrace then closes_at_end (Suc d) cs
      else if c = rbrace then (if d \<le> 1 then d = 1 \<and> cs = [] else closes_at_end (d - 1) cs)
      else closes_at_end d cs)"

definition balanced_span :: "jsstring \<Rightarrow> bool" where
  "balanced_span t = (case t of [] \<Rightarrow> False | c # cs \<Rightarrow> c = lbrace \<and> closes_at_end 1 cs)"

definition substrings :: "jsstring \<Rightarrow> (nat \<times> jsstring) list" where
  \<comment> \<open>the non-empty substrings of a text, each with the position where it starts\<close>
  "substrings s =
     concat (map (\<lambda>i. map (\<lambda>n. (i, take n (drop i s))) [1..<Suc (length s - i)]) [0..<length s])"

definition balanced_spans :: "jsstring \<Rightarrow> (nat \<times> jsstring) list" where
  "balanced_spans s = filter (\<lambda>(i, t). balanced_span t) (substrings s)"

text \<open>A text holds the opening of a line comment when two slashes stand side by side.\<close>

fun has_double_slash :: "jsstring \<Rightarrow> bool" where
  "has_double_slash [] = False"
| "has_double_slash [c] = False"
| "has_double_slash (c # d # cs) = ((c = slash \<and> d = slash) \<or> has_double_slash (d # cs))"

section \<open>Concrete surroundings for the examples\<close>

text \<open>
  The wording V8 gives to the two TypeErrors the mapping can raise, the state of the
  component when it is mounted, a supply of identifiers (the first ten differ in their last
  digit), and the reply of the model in the end-to-end example of the specification.
\<close>

definition v8_message :: "type_error \<Rightarrow> jsstring" where
  "v8_message te =
     (case te of
        ReadOfNullish v k \<Rightarrow>
          js ''Cannot read properties of '' @ (if v = JNull then js ''null'' else js ''undefined'')
            @ js '' (reading '' @ [0x27] @ k @ [0x27] @ js '')''
      | NotAFunction p \<Rightarrow> js ''parsedEstimation.'' @ p @ js ''.map is not a function'')"

definition initial_state :: state where
  "initial_state = \<lparr>isLoading = False, error = [], estimation = None, delivered = []\<rparr>"

definition demo_uuids :: rng where
  "demo_uuids k = Abs_uuid (js ''00000000-0000-4000-8000-00000000000'' @ [of_nat (48 + k)])"

definition shed_text :: jsstring where
  \<open>shed_text = js ''Here you go: {"projectName":"Shed","length":3,"width":2,"height":2.4,"materials":[{"name":"Plywood","unit":"sheet","costPerUnit":25,"quantity":10}],"labor":[{"role":"Carpenter","costPerHour":40,"hours":8}]}''\<close>

text \<open>
  What \<^verbatim>\<open>extractAndParseJSON\<close> returns for that reply and the record the mapping makes of
  it when the identifiers come from \<open>demo_uuids\<close>.
\<close>

definition shed_parsed :: jsval where
  "shed_parsed = JObj
     [(js ''projectName'', JStr (js ''Shed'')), (js ''length'', JNum 3), (js ''width'', JNum 2),
      (js ''height'', JNum (12 / 5)),
      (js ''materials'',
         JArr [JObj [(js ''name'', JStr (js ''Plywood'')), (js ''unit'', JStr (js ''sheet'')),
                     (js ''costPerUnit'', JNum 25), (js ''quantity'', JNum 10)]]),
      (js ''labor'',
         JArr [JObj [(js ''role'', JStr (js ''Carpenter'')), (js ''costPerHour'', JNum 40),
                     (js ''hours'', JNum 8)]])]"

definition shed_details :: ProjectDetails where
  "shed_details =
     \<lparr>p_projectName = JStr (js ''Shed''), p_length = JNum 3, p_width = JNum 2,
      p_height = JNum (12 / 5),
      p_materials =
        [\<lparr>m_id = JStr (js ''00000000-0000-4000-8000-000000000000''),
          m_name = JStr (js ''Plywood''), m_unit = JStr (js ''sheet''),
          m_costPerUnit = JNum 25, m_quantity = JNum 10, m_description = JStr []\<rparr>],
      p_labor =
        [\<lparr>l_id = JStr (js ''00000000-0000-4000-8000-000000000001''),
          l_role = JStr (js ''Carpenter''), l_costPerHour = JNum 40, l_hours = JNum 8,
          l_description = JStr []\<rparr>]\<rparr>"

text \<open>
  Two entries that carry the same \<^verbatim>\<open>id\<close> and no \<^verbatim>\<open>materialId\<close>, two entries that
  carry the same \<^verbatim>\<open>materialId\<close> and no \<^verbatim>\<open>id\<close>, and one entry of each list that
  follows the format of the prompt.
\<close>

definition same_id_items :: "jsval list" where
  "same_id_items =
     [JObj [(js ''id'', JStr (js ''a'')), (js ''name'', JStr (js ''Plywood''))],
      JObj [(js ''id'', JStr (js ''a'')), (js ''name'', JStr (js ''Nails''))]]"

definition same_materialId_items :: "jsval list" where
  "same_materialId_items =
     [JObj [(js ''materialId'', JStr (js ''M1'')), (js ''name'', JStr (js ''Plywood''))],
      JObj [(js ''materialId'', JStr (js ''M1'')), (js ''name'', JStr (js ''Nails''))]]"

definition plywood_with_id :: "(jsstring \<times> jsval) list" where
  "plywood_with_id = [(js ''id'', JStr (js ''m1'')), (js ''name'', JStr (js ''Plywood''))]"

definition carpenter_with_id :: "(jsstring \<times> jsval) list" where
  "carpenter_with_id = [(js ''id'', JStr (js ''l1'')), (js ''role'', JStr (js ''Carpenter''))]"

section \<open>Facts about the extraction\<close>

lemma match_rest_None: "rbrace \<notin> set cs \<Longrightarrow> match_rest cs = None"
  by (induction cs) auto

lemma match_rest_app:
  "rbrace \<notin> set post \<Longrightarrow> match_rest (mid @ rbrace # post) = Some (mid @ [rbrace])"
  by (induction mid) (simp_all add: match_rest_None)

lemma match_object_app:
  "lbrace \<notin> set pre \<Longrightarrow> rbrace \<notin> set post \<Longrightarrow>
   match_object (pre @ lbrace # mid @ rbrace # post) = Some (lbrace # mid @ [rbrace])"
  by (induction pre) (simp_all add: match_rest_app)

lemma match_object_no_lbrace: "lbrace \<notin> set s \<Longrightarrow> match_object s = None"
  by (induction s) auto

lemma match_object_no_rbrace: "rbrace \<notin> set s \<Longrightarrow> match_object s = None"
  by (induction s) (simp_all add: match_rest_None)

lemma match_object_no_later:
  "lbrace \<notin> set pre \<Longrightarrow> rbrace \<notin> set rest \<Longrightarrow> match_object (pre @ lbrace # rest) = None"
  by (induction pre) (simp_all add: match_rest_None match_object_no_rbrace)

lemma first_index_None: "c \<notin> set xs \<Longrightarrow> first_index c xs = None"
  by (induction xs) auto

lemma first_index_app: "c \<notin> set pre \<Longrightarrow> first_index c (pre @ c # rest) = Some (length pre)"
  by (induction pre) auto

lemma last_index_None: "c \<notin> set xs \<Longrightarrow> last_index c xs = None"
  by (simp add: last_index_def first_index_None)

lemma last_index_app: "c \<notin> set post \<Longrightarrow> last_index c (pre @ c # post) = Some (length pre)"
  using first_index_app [of c "rev post" "rev pre"] by (simp add: last_index_def)

lemma match_object_spec_span: "match_object s = spec_span s"
proof (cases "lbrace \<in> set s")
  case False
  then show ?thesis
    by (simp add: match_object_no_lbrace spec_span_def first_index_None)
next
  case True
  then obtain pre rest where s: "s = pre @ lbrace # rest" and pre: "lbrace \<notin> set pre"
    using split_list_first [of lbrace s] by blast
  have fi: "first_index lbrace s = Some (length pre)"
    using pre by (simp add: s first_index_app)
  show ?thesis
  proof (cases "rbrace \<in> set rest")
    case False
    have mo: "match_object s = None"
      using pre False by (simp add: s match_object_no_later)
    show ?thesis
    proof (cases "rbrace \<in> set pre")
      case False
      with \<open>rbrace \<notin> set rest\<close> have "rbrace \<notin> set s" by (simp add: s)
      then have "last_index rbrace s = None" by (simp add: last_index_None)
      then show ?thesis unfolding spec_span_def mo fi by simp
    next
      case True
      then obtain p1 p2 where p: "pre = p1 @ rbrace # p2" and p2: "rbrace \<notin> set p2"
        using split_list_last [of rbrace pre] by blast
      have "rbrace \<notin> set (p2 @ lbrace # rest)" using p2 False by simp
      then have "last_index rbrace (p1 @ rbrace # (p2 @ lbrace # rest)) = Some (length p1)"
        by (rule last_index_app)
      then have "last_index rbrace s = Some (length p1)" by (simp add: s p)
      then show ?thesis unfolding spec_span_def mo fi by (simp add: p)
    qed
  next
    case True
    then obtain mid post where r: "rest = mid @ rbrace # post" and post: "rbrace \<notin> set post"
      using split_list_last [of rbrace rest] by blast
    have mo: "match_object s = Some (lbrace # mid @ [rbrace])"
      using pre post by (simp add: s r match_object_app)
    have "last_index rbrace ((pre @ lbrace # mid) @ rbrace # post)
            = Some (length (pre @ lbrace # mid))"
      using post by (rule last_index_app)
    then have li: "last_index rbrace s = Some (length pre + Suc (length mid))"
      by (simp add: s r)
    show ?thesis unfolding spec_span_def mo fi li by (simp add: s r)
  qed
qed

lemma closes_at_end_last: "closes_at_end d cs \<Longrightarrow> cs \<noteq> [] \<and> last cs = rbrace"
proof (induction cs arbitrary: d)
  case Nil
  then show ?case by simp
next
  case (Cons c cs)
  show ?case
  proof (cases "c = lbrace")
    case True
    with Cons.prems have "closes_at_end (Suc d) cs" by simp
    from Cons.IH [OF this] show ?thesis by simp
  next
    case False
    show ?thesis
    proof (cases "c = rbrace")
      case True
      show ?thesis
      proof (cases "d \<le> 1")
        case True
        with Cons.prems \<open>c = rbrace\<close> show ?thesis by simp
      next
        case False
        with Cons.prems \<open>c = rbrace\<close> have "closes_at_end (d - 1) cs" by simp
        from Cons.IH [OF this] show ?thesis by simp
      qed
    next
      case False
      with Cons.prems \<open>c \<noteq> lbrace\<close> have "closes_at_end d cs" by simp
      from Cons.IH [OF this] show ?thesis by simp
    qed
  qed
qed

lemma balanced_span_shape: "balanced_span t \<Longrightarrow> \<exists>mid. t = lbrace # mid @ [rbrace]"
proof -
  assume b: "balanced_span t"
  then obtain cs where t: "t = lbrace # cs" and c: "closes_at_end 1 cs"
    by (auto simp: balanced_span_def split: list.splits)
  from closes_at_end_last [OF c] have "cs = butlast cs @ [rbrace]"
    by (metis append_butlast_last_id)
  with t show ?thesis by blast
qed

section \<open>Facts about the repair\<close>

lemma strip_comments_first:
  "\<not> has_double_slash (pre @ [slash]) \<Longrightarrow>
   strip_comments (pre @ slash # slash # rest) =
     pre @ strip_comments (dropWhile (\<lambda>x. \<not> isLineTerminator x) rest)"
proof (induction pre rule: has_double_slash.induct)
  case 1
  show ?case by simp
next
  case (2 c)
  then have "c \<noteq> slash" by simp
  then show ?case by simp
next
  case (3 c d cs)
  from "3.prems" have nd: "\<not> (c = slash \<and> d = slash)"
    and rest: "\<not> has_double_slash ((d # cs) @ [slash])" by simp_all
  from nd have "strip_comments (c # d # (cs @ slash # slash # rest)) =
      c # strip_comments (d # (cs @ slash # slash # rest))" by auto
  with "3.IH" [OF rest] show ?case by simp
qed

lemma strip_comments_head:
  "d \<noteq> slash \<Longrightarrow> strip_comments (d # cs) = d # strip_comments cs"
  by (cases cs) simp_all

lemma strip_comments_no_double_slash: "\<not> has_double_slash (strip_comments s)"
proof (induction s rule: strip_comments.induct)
  case 1
  show ?case by simp
next
  case (2 c)
  show ?case by simp
next
  case (3 c d cs)
  show ?case
  proof (cases "c = slash \<and> d = slash")
    case True
    with "3.IH"(1) show ?thesis by simp
  next
    case False
    with "3.IH"(2) have ih: "\<not> has_double_slash (strip_comments (d # cs))" by simp
    from False have eq: "strip_comments (c # d # cs) = c # strip_comments (d # cs)" by auto
    show ?thesis
    proof (cases "c = slash")
      case True
      with False have "d \<noteq> slash" by simp
      then have "strip_comments (d # cs) = d # strip_comments cs" by (rule strip_comments_head)
      with ih eq \<open>d \<noteq> slash\<close> show ?thesis by simp
    next
      case False
      show ?thesis
      proof (cases "strip_comments (d # cs)")
        case Nil
        with eq show ?thesis by simp
      next
        case (Cons e es)
        with ih eq False show ?thesis by simp
      qed
    qed
  qed
qed

lemma slash_no_terminator: "\<not> isLineTerminator slash"
  by (simp add: isLineTerminator_def)

lemma strip_comments_any:
  "strip_comments (pre @ slash # slash # rest) =
     strip_comments (pre @ [slash, slash]) @
     strip_comments (dropWhile (\<lambda>x. \<not> isLineTerminator x) rest)"
proof (induction "length pre" arbitrary: pre rule: less_induct)
  case less
  show ?case
  proof (cases pre)
    case Nil
    then show ?thesis by simp
  next
    case (Cons c tl)
    note pre = Cons
    show ?thesis
    proof (cases tl)
      case Nil
      with pre show ?thesis by (simp add: slash_no_terminator)
    next
      case (Cons d cs)
      with pre have p: "pre = c # d # cs" by simp
      show ?thesis
      proof (cases "c = slash \<and> d = slash")
        case False
        have "length (d # cs) < length pre" by (simp add: p)
        from less [OF this] False show ?thesis by (auto simp: p)
      next
        case True
        show ?thesis
        proof (cases "\<exists>x\<in>set cs. isLineTerminator x")
          case False
          then have "\<And>x. x \<in> set cs \<Longrightarrow> \<not> isLineTerminator x" by blast
          then have "\<And>ys. dropWhile (\<lambda>x. \<not> isLineTerminator x) (cs @ ys) =
              dropWhile (\<lambda>x. \<not> isLineTerminator x) ys"
            by (simp add: dropWhile_append2)
          with True show ?thesis by (simp add: p slash_no_terminator)
        next
          case True
          then obtain x where x: "x \<in> set cs" "isLineTerminator x" by blast
          then have app: "\<And>ys. dropWhile (\<lambda>x. \<not> isLineTerminator x) (cs @ ys) =
              dropWhile (\<lambda>x. \<not> isLineTerminator x) cs @ ys"
            by (simp add: dropWhile_append1)
          have "length (dropWhile (\<lambda>x. \<not> isLineTerminator x) cs) \<le> length cs"
            by (rule length_dropWhile_le)
          then have "length (dropWhile (\<lambda>x. \<not> isLineTerminator x) cs) < length pre"
            by (simp add: p)
          from less [OF this] \<open>c = slash \<and> d = slash\<close> show ?thesis by (simp add: p app)
        qed
      qed
    qed
  qed
qed

section \<open>Facts about the identifiers\<close>

lemma length_Rep_uuid: "length (Rep_uuid u) = 36"
  using Rep_uuid [of u] by simp

lemma Rep_demo_uuids: "Rep_uuid (demo_uuids k) = js ''00000000-0000-4000-8000-00000000000'' @ [of_nat (48 + k)]"
  unfolding demo_uuids_def by (rule Abs_uuid_inverse) (simp add: js_def)

lemma demo_uuids_0: "Rep_uuid (demo_uuids 0) = js ''00000000-0000-4000-8000-000000000000''"
  by (simp add: Rep_demo_uuids js_def)

lemma demo_uuids_1: "Rep_uuid (demo_uuids (Suc 0)) = js ''00000000-0000-4000-8000-000000000001''"
  by (simp add: Rep_demo_uuids js_def)

lemma demo_uuids_differ: "demo_uuids 0 \<noteq> demo_uuids (Suc 0)"
proof -
  have "Rep_uuid (demo_uuids 0) \<noteq> Rep_uuid (demo_uuids (Suc 0))"
    unfolding demo_uuids_0 demo_uuids_1 by (simp add: js_def)
  then show ?thesis by auto
qed

lemma demo_uuids_distinct: "distinct (map demo_uuids [0..<2])"
proof -
  have "[0..<2] = [0, Suc 0]" by (simp add: upt_rec)
  with demo_uuids_differ show ?thesis by simp
qed

lemma get_prop_defined: "get_prop m k = Inr v \<Longrightarrow> \<exists>v'. get_prop m k' = Inr v'"
  by (cases m) simp_all

lemma map_material_id:
  assumes "get_prop m (js ''materialId'') = Inr v"
  shows "\<exists>mat. map_material g m n = Inr (mat, snd (or_randomUUID v g n)) \<and>
               m_id mat = fst (or_randomUUID v g n)"
proof -
  obtain v1 where 1: "get_prop m (js ''name'') = Inr v1"
    using get_prop_defined [OF assms] by blast
  obtain v2 where 2: "get_prop m (js ''unit'') = Inr v2"
    using get_prop_defined [OF assms] by blast
  obtain v3 where 3: "get_prop m (js ''costPerUnit'') = Inr v3"
    using get_prop_defined [OF assms] by blast
  obtain v4 where 4: "get_prop m (js ''quantity'') = Inr v4"
    using get_prop_defined [OF assms] by blast
  obtain v5 where 5: "get_prop m (js ''description'') = Inr v5"
    using get_prop_defined [OF assms] by blast
  show ?thesis
    unfolding map_material_def assms 1 2 3 4 5 and_then_def
    by (simp split: prod.splits)
qed

lemma map_labor_id:
  assumes "get_prop l (js ''laborId'') = Inr w"
  shows "\<exists>lab. map_labor g l n = Inr (lab, snd (or_randomUUID w g n)) \<and>
               l_id lab = fst (or_randomUUID w g n)"
proof -
  obtain v1 where 1: "get_prop l (js ''role'') = Inr v1"
    using get_prop_defined [OF assms] by blast
  obtain v2 where 2: "get_prop l (js ''costPerHour'') = Inr v2"
    using get_prop_defined [OF assms] by blast
  obtain v3 where 3: "get_prop l (js ''hours'') = Inr v3"
    using get_prop_defined [OF assms] by blast
  obtain v4 where 4: "get_prop l (js ''description'') = Inr v4"
    using get_prop_defined [OF assms] by blast
  show ?thesis
    unfolding map_labor_def assms 1 2 3 4 and_then_def
    by (simp split: prod.splits)
qed

lemma map_items_fresh:
  "\<forall>m\<in>set xs. get_prop m (js ''materialId'') = Inr JUndefined \<Longrightarrow>
   \<exists>mats. map_items (map_material g) xs n = Inr (mats, n + length xs) \<and>
          map m_id mats = map (\<lambda>k. JStr (Rep_uuid (g k))) [n..<n + length xs]"
proof (induction xs arbitrary: n)
  case Nil
  show ?case by simp
next
  case (Cons x xs)
  from Cons.prems have x: "get_prop x (js ''materialId'') = Inr JUndefined"
    and xs: "\<forall>m\<in>set xs. get_prop m (js ''materialId'') = Inr JUndefined" by simp_all
  from map_material_id [OF x, of g n] obtain mat
    where m: "map_material g x n = Inr (mat, Suc n)" and i: "m_id mat = JStr (Rep_uuid (g n))"
    by (auto simp: or_randomUUID_def randomUUID_def)
  from Cons.IH [OF xs, of "Suc n"] obtain mats
    where ms: "map_items (map_material g) xs (Suc n) = Inr (mats, Suc n + length xs)"
      and ids: "map m_id mats = map (\<lambda>k. JStr (Rep_uuid (g k))) [Suc n..<Suc n + length xs]"
    by blast
  have "[n..<n + length (x # xs)] = n # [Suc n..<Suc n + length xs]"
    by (simp add: upt_rec)
  with m i ms ids show ?case by simp
qed

lemma inj_uuid_string: "inj (\<lambda>u. JStr (Rep_uuid u))"
  by (rule injI) (simp add: Rep_uuid_inject)

lemma materialId_not_in_schema: "js ''materialId'' \<notin> set material_schema"
  by (simp add: material_schema_def js_def)

lemma laborId_not_in_schema: "js ''laborId'' \<notin> set labor_schema"
  by (simp add: labor_schema_def js_def)

lemma map_of_outside: "k \<notin> fst ` set ms \<Longrightarrow> map_of ms k = None"
  by (simp add: map_of_eq_None_iff)

section \<open>The claims\<close>

text \<open>
  C1. The extraction step selects as the candidate exactly the text from the first \<^verbatim>\<open>{\<close>
  to the last \<^verbatim>\<open>}\<close> of the input, both included; when the input has no \<^verbatim>\<open>{\<close> that lies
  before a later \<^verbatim>\<open>}\<close>, the function raises its error (an \<^verbatim>\<open>Error\<close> whose message is
  \<^verbatim>\<open>JSON object not found.\<close>) and returns no candidate.
\<close>

theorem extraction_first_to_last_brace:
  "match_object str = spec_span str \<and>
   extractAndParseJSON str =
     (case spec_span str of
        None \<Rightarrow> Inl (ErrorObj (js ''JSON object not found.''))
      | Some candidate \<Rightarrow>
          Inr (case JSON_parse (repair candidate) of Some v \<Rightarrow> v | None \<Rightarrow> JNull))"
  by (simp add: extractAndParseJSON_def match_object_spec_span split: option.splits)

text \<open>
  C2. Once a candidate has been found, \<^verbatim>\<open>extractAndParseJSON\<close> always returns a value and
  never raises: when \<^verbatim>\<open>JSON.parse\<close> refuses the repaired text (an unterminated string,
  for one), the value is \<^verbatim>\<open>null\<close>.
\<close>

theorem parse_failure_yields_null:
  "match_object str = Some candidate \<Longrightarrow>
   (\<exists>v. extractAndParseJSON str = Inr v) \<and>
   (JSON_parse (repair candidate) = None \<longrightarrow> extractAndParseJSON str = Inr JNull)"
  by (simp add: extractAndParseJSON_def split: option.splits)

lemma unterminated_match:
  \<open>match_object (js ''{"name": "Plywood}'') = Some (js ''{"name": "Plywood}'')\<close>
  by code_simp

lemma unterminated_parse: \<open>JSON_parse (repair (js ''{"name": "Plywood}'')) = None\<close>
  by code_simp

theorem parse_failure_yields_null_witness:
  \<open>match_object (js ''{"name": "Plywood}'') = Some (js ''{"name": "Plywood}'') \<and>
   JSON_parse (repair (js ''{"name": "Plywood}'')) = None \<and>
   extractAndParseJSON (js ''{"name": "Plywood}'') = Inr JNull\<close>
  using parse_failure_yields_null [OF unterminated_match] unterminated_match unterminated_parse
  by simp

text \<open>
  C3. For the parsed material \<^verbatim>\<open>{quantity: 5}\<close>, which has no other field, the mapping gives
  a \<^verbatim>\<open>Material\<close> whose \<^verbatim>\<open>name\<close> is \<^verbatim>\<open>Material\<close>, \<^verbatim>\<open>unit\<close> is \<^verbatim>\<open>unit\<close>, \<^verbatim>\<open>costPerUnit\<close>
  is 0, \<^verbatim>\<open>description\<close> is the empty string and \<^verbatim>\<open>quantity\<close> is 5; its \<^verbatim>\<open>id\<close> is the
  identifier that the next call of \<^verbatim>\<open>crypto.randomUUID()\<close> returns, which is not empty.
\<close>

theorem defaults_for_quantity_only:
  "map_material g (JObj [(js ''quantity'', JNum 5)]) n =
     Inr (\<lparr>m_id = JStr (Rep_uuid (g n)), m_name = JStr (js ''Material''),
           m_unit = JStr (js ''unit''), m_costPerUnit = JNum 0, m_quantity = JNum 5,
           m_description = JStr []\<rparr>, Suc n) \<and>
   length (Rep_uuid (g n)) = 36 \<and> Rep_uuid (g n) \<noteq> []"
proof -
  have "Rep_uuid (g n) \<noteq> []" using length_Rep_uuid [of "g n"] by auto
  then show ?thesis
    by (simp add: map_material_def and_then_def or_randomUUID_def randomUUID_def
        or_default_def js_def length_Rep_uuid)
qed

text \<open>
  C4. The identifier of a mapped material depends on the parsed entry through its field
  \<^verbatim>\<open>materialId\<close> alone, and that of a labor item through \<^verbatim>\<open>laborId\<close> alone: the field is
  taken when it is truthy, otherwise the next identifier is generated. Neither name is among
  the fields the prompt asks for, so for every entry that has only fields of that format an
  identifier is generated, whether or not the entry carries an \<^verbatim>\<open>id\<close>.
\<close>

theorem id_lookup_reads_materialId:
  "(get_prop m (js ''materialId'') = Inr v \<longrightarrow>
      (\<exists>mat n'. map_material g m n = Inr (mat, n') \<and>
         (m_id mat, n') = (if truthy v then (v, n) else (JStr (Rep_uuid (g n)), Suc n)))) \<and>
   (get_prop l (js ''laborId'') = Inr w \<longrightarrow>
      (\<exists>lab n'. map_labor g l n = Inr (lab, n') \<and>
         (l_id lab, n') = (if truthy w then (w, n) else (JStr (Rep_uuid (g n)), Suc n)))) \<and>
   js ''materialId'' \<notin> set material_schema \<and> js ''laborId'' \<notin> set labor_schema \<and>
   (fst ` set ms \<subseteq> set material_schema \<longrightarrow>
      (\<exists>mat. map_material g (JObj ms) n = Inr (mat, Suc n) \<and> m_id mat = JStr (Rep_uuid (g n)))) \<and>
   (fst ` set ls \<subseteq> set labor_schema \<longrightarrow>
      (\<exists>lab. map_labor g (JObj ls) n = Inr (lab, Suc n) \<and> l_id lab = JStr (Rep_uuid (g n))))"
proof (intro conjI impI)
  assume "get_prop m (js ''materialId'') = Inr v"
  from map_material_id [OF this, of g n]
  show "\<exists>mat n'. map_material g m n = Inr (mat, n') \<and>
         (m_id mat, n') = (if truthy v then (v, n) else (JStr (Rep_uuid (g n)), Suc n))"
    by (auto simp: or_randomUUID_def randomUUID_def)
next
  assume "get_prop l (js ''laborId'') = Inr w"
  from map_labor_id [OF this, of g n]
  show "\<exists>lab n'. map_labor g l n = Inr (lab, n') \<and>
         (l_id lab, n') = (if truthy w then (w, n) else (JStr (Rep_uuid (g n)), Suc n))"
    by (auto simp: or_randomUUID_def randomUUID_def)
next
  show "js ''materialId'' \<notin> set material_schema" by (rule materialId_not_in_schema)
next
  show "js ''laborId'' \<notin> set labor_schema" by (rule laborId_not_in_schema)
next
  assume "fst ` set ms \<subseteq> set material_schema"
  with materialId_not_in_schema have "js ''materialId'' \<notin> fst ` set ms" by blast
  then have "get_prop (JObj ms) (js ''materialId'') = Inr JUndefined"
    by (simp add: map_of_outside)
  from map_material_id [OF this, of g n]
  show "\<exists>mat. map_material g (JObj ms) n = Inr (mat, Suc n) \<and> m_id mat = JStr (Rep_uuid (g n))"
    by (simp add: or_randomUUID_def randomUUID_def)
next
  assume "fst ` set ls \<subseteq> set labor_schema"
  with laborId_not_in_schema have "js ''laborId'' \<notin> fst ` set ls" by blast
  then have "get_prop (JObj ls) (js ''laborId'') = Inr JUndefined"
    by (simp add: map_of_outside)
  from map_labor_id [OF this, of g n]
  show "\<exists>lab. map_labor g (JObj ls) n = Inr (lab, Suc n) \<and> l_id lab = JStr (Rep_uuid (g n))"
    by (simp add: or_randomUUID_def randomUUID_def)
qed

lemma plywood_no_materialId: "get_prop (JObj plywood_with_id) (js ''materialId'') = Inr JUndefined"
  by (simp add: plywood_with_id_def js_def)

lemma carpenter_no_laborId: "get_prop (JObj carpenter_with_id) (js ''laborId'') = Inr JUndefined"
  by (simp add: carpenter_with_id_def js_def)

lemma plywood_in_schema: "fst ` set plywood_with_id \<subseteq> set material_schema"
  by (simp add: plywood_with_id_def material_schema_def)

lemma carpenter_in_schema: "fst ` set carpenter_with_id \<subseteq> set labor_schema"
  by (simp add: carpenter_with_id_def labor_schema_def)

lemma plywood_has_id: "get_prop (JObj plywood_with_id) (js ''id'') = Inr (JStr (js ''m1''))"
  by (simp add: plywood_with_id_def)

theorem id_lookup_reads_materialId_witness:
  "get_prop (JObj plywood_with_id) (js ''materialId'') = Inr JUndefined \<and>
   get_prop (JObj carpenter_with_id) (js ''laborId'') = Inr JUndefined \<and>
   fst ` set plywood_with_id \<subseteq> set material_schema \<and>
   fst ` set carpenter_with_id \<subseteq> set labor_schema \<and>
   get_prop (JObj plywood_with_id) (js ''id'') = Inr (JStr (js ''m1'')) \<and>
   (\<exists>mat. map_material demo_uuids (JObj plywood_with_id) 0 = Inr (mat, Suc 0) \<and>
      m_id mat = JStr (Rep_uuid (demo_uuids 0))) \<and>
   (\<exists>lab. map_labor demo_uuids (JObj carpenter_with_id) 0 = Inr (lab, Suc 0) \<and>
      l_id lab = JStr (Rep_uuid (demo_uuids 0)))"
  using id_lookup_reads_materialId
      [where m = "JObj plywood_with_id" and v = JUndefined and l = "JObj carpenter_with_id"
         and w = JUndefined and ms = plywood_with_id and ls = carpenter_with_id
         and g = demo_uuids and n = 0]
    plywood_no_materialId carpenter_no_laborId plywood_in_schema carpenter_in_schema
    plywood_has_id
  by blast

text \<open>
  C5, as stated: when the parse step yields \<^verbatim>\<open>null\<close> and the mapping then reads a field
  of it, the user is shown the fallback message \<^verbatim>\<open>Failed to analyze project. Please try again.\<close>
  On the reply \<^verbatim>\<open>{"projectName": "Shed}\<close>, whose string never ends, the parse step yields
  \<^verbatim>\<open>null\<close>, and under V8 the message shown is that of the TypeError.
\<close>

theorem null_outcome_message_counterexample:
  \<open>extractAndParseJSON (js ''{"projectName": "Shed}'') = Inr JNull \<and>
   error (analyzeProject v8_message demo_uuids (Inr (js ''{"projectName": "Shed}'')) initial_state) =
     js ''Cannot read properties of null (reading 'projectName')'' \<and>
   js ''Cannot read properties of null (reading 'projectName')'' \<noteq>
     js ''Failed to analyze project. Please try again.''\<close>
  by code_simp

text \<open>
  C5, amended: when the parse step yields \<^verbatim>\<open>null\<close>, reading \<^verbatim>\<open>projectName\<close> of it raises
  a TypeError; a TypeError is an instance of \<^verbatim>\<open>Error\<close>, so the handler shows the message of
  that TypeError, as the engine words it, stores no estimate and clears the loading flag.
  What the user reads is the fallback text exactly when the engine words its TypeError with
  that very text. The handler puts the fallback message in place of a thrown value that is
  no instance of \<^verbatim>\<open>Error\<close>, and for every instance of \<^verbatim>\<open>Error\<close> it shows the message of
  the instance.
\<close>

theorem null_outcome_message:
  "extractAndParseJSON text = Inr JNull \<Longrightarrow>
   analyzeProject engine g (Inr text) st =
     st\<lparr>isLoading := False, error := engine (ReadOfNullish JNull (js ''projectName'')),
        estimation := None\<rparr> \<and>
   (error (analyzeProject engine g (Inr text) st) =
        js ''Failed to analyze project. Please try again.'' \<longleftrightarrow>
      engine (ReadOfNullish JNull (js ''projectName'')) =
        js ''Failed to analyze project. Please try again.'') \<and>
   analyzeProject engine g (Inl NonError) st =
     st\<lparr>isLoading := False, error := js ''Failed to analyze project. Please try again.'',
        estimation := None\<rparr> \<and>
   analyzeProject engine g (Inl (ErrorObj msg)) st =
     st\<lparr>isLoading := False, error := msg, estimation := None\<rparr> \<and>
   analyzeProject engine g (Inl (TypeErrorObj te)) st =
     st\<lparr>isLoading := False, error := engine te, estimation := None\<rparr>"
  by (simp add: analyzeProject_def try_body_def transform_def and_then_def handler_message_def)

lemma shed_never_closed: \<open>extractAndParseJSON (js ''{"projectName": "Shed}'') = Inr JNull\<close>
  by code_simp

lemma v8_null_projectName:
  \<open>v8_message (ReadOfNullish JNull (js ''projectName'')) =
     js ''Cannot read properties of null (reading 'projectName')''\<close>
  by code_simp

lemma v8_wording_is_not_fallback:
  \<open>js ''Cannot read properties of null (reading 'projectName')'' \<noteq>
     js ''Failed to analyze project. Please try again.''\<close>
  by code_simp

theorem null_outcome_message_witness:
  \<open>extractAndParseJSON (js ''{"projectName": "Shed}'') = Inr JNull \<and>
   analyzeProject v8_message demo_uuids (Inr (js ''{"projectName": "Shed}'')) initial_state =
     \<lparr>isLoading = False, error = js ''Cannot read properties of null (reading 'projectName')'',
      estimation = None, delivered = []\<rparr> \<and>
   error (analyzeProject v8_message demo_uuids (Inr (js ''{"projectName": "Shed}'')) initial_state)
     \<noteq> js ''Failed to analyze project. Please try again.''\<close>
  using null_outcome_message [OF shed_never_closed, of v8_message demo_uuids initial_state]
    shed_never_closed v8_null_projectName v8_wording_is_not_fallback
  by (simp add: initial_state_def)

text \<open>
  C6, as stated: for any text holding exactly one balanced \<^verbatim>\<open>{...}\<close> span in arbitrary
  prose, the candidate is that span. The text \<^verbatim>\<open>{a} }\<close> holds exactly one balanced span,
  \<^verbatim>\<open>{a}\<close>, followed by prose with a stray \<^verbatim>\<open>}\<close>, and its candidate is the whole text.
\<close>

theorem candidate_is_the_span_counterexample:
  \<open>js ''{a} }'' = [] @ js ''{a}'' @ js '' }'' \<and>
   balanced_span (js ''{a}'') \<and>
   balanced_spans (js ''{a} }'') = [(0, js ''{a}'')] \<and>
   match_object (js ''{a} }'') = Some (js ''{a} }'') \<and>
   js ''{a} }'' \<noteq> js ''{a}''\<close>
  by code_simp

text \<open>
  C6, amended: for any text made of a balanced \<^verbatim>\<open>{...}\<close> span, prose before it that holds
  no \<^verbatim>\<open>{\<close> and prose behind it that holds no \<^verbatim>\<open>}\<close>, the candidate is exactly that span.
\<close>

theorem candidate_is_the_span:
  "balanced_span obj \<Longrightarrow> lbrace \<notin> set pre \<Longrightarrow> rbrace \<notin> set post \<Longrightarrow>
   match_object (pre @ obj @ post) = Some obj"
proof -
  assume b: "balanced_span obj" and pre: "lbrace \<notin> set pre" and post: "rbrace \<notin> set post"
  from balanced_span_shape [OF b] obtain mid where m: "obj = lbrace # mid @ [rbrace]" ..
  from match_object_app [OF pre post, of mid] show ?thesis by (simp add: m)
qed

lemma demo_span: \<open>balanced_span (js ''{"a":{"b":1}}'')\<close>
  by code_simp

lemma demo_pre: \<open>lbrace \<notin> set (js ''Sure: '')\<close>
  by (simp add: js_def)

lemma demo_post: \<open>rbrace \<notin> set (js '' Done.'')\<close>
  by (simp add: js_def)

theorem candidate_is_the_span_witness:
  \<open>balanced_span (js ''{"a":{"b":1}}'') \<and> lbrace \<notin> set (js ''Sure: '') \<and>
   rbrace \<notin> set (js '' Done.'') \<and>
   match_object (js ''Sure: '' @ js ''{"a":{"b":1}}'' @ js '' Done.'') = Some (js ''{"a":{"b":1}}'')\<close>
  using candidate_is_the_span [OF demo_span demo_pre demo_post] demo_span demo_pre demo_post
  by simp

text \<open>
  C7. The repair of \<^verbatim>\<open>{"a": 1, // comment\<close> (line feed) \<^verbatim>\<open> "b": 2,}\<close> removes the line
  comment and the trailing comma, and the repaired text parses to the value that
  \<^verbatim>\<open>{"a":1,"b":2}\<close> parses to.
\<close>

theorem repair_comment_and_trailing_comma:
  \<open>repair (js ''{"a": 1, // comment\<newline> "b": 2,}'') = js ''{"a": 1, \<newline> "b": 2}'' \<and>
   JSON_parse (repair (js ''{"a": 1, // comment\<newline> "b": 2,}'')) =
     Some (JObj [(js ''a'', JNum 1), (js ''b'', JNum 2)]) \<and>
   JSON_parse (js ''{"a":1,"b":2}'') = Some (JObj [(js ''a'', JNum 1), (js ''b'', JNum 2)])\<close>
  by code_simp

text \<open>
  C8, as stated: mapping N parsed materials that each lack an \<^verbatim>\<open>id\<close> field gives N
  pairwise distinct identifiers. The two entries of \<open>same_materialId_items\<close> have no
  \<^verbatim>\<open>id\<close> field; both carry the \<^verbatim>\<open>materialId\<close> \<^verbatim>\<open>M1\<close>, which the mapping takes as their
  identifier, although the identifiers the generator would hand out are different.
\<close>

theorem generated_ids_distinct_counterexample:
  "list_all (\<lambda>m. get_prop m (js ''id'') = Inr JUndefined) same_materialId_items \<and>
   distinct (map demo_uuids [0..<2]) \<and>
   map_items (map_material demo_uuids) same_materialId_items 0 =
     Inr ([\<lparr>m_id = JStr (js ''M1''), m_name = JStr (js ''Plywood''), m_unit = JStr (js ''unit''),
             m_costPerUnit = JNum 0, m_quantity = JUndefined, m_description = JStr []\<rparr>,
           \<lparr>m_id = JStr (js ''M1''), m_name = JStr (js ''Nails''), m_unit = JStr (js ''unit''),
             m_costPerUnit = JNum 0, m_quantity = JUndefined, m_description = JStr []\<rparr>], 0) \<and>
   \<not> distinct [JStr (js ''M1''), JStr (js ''M1'')]"
  using demo_uuids_distinct
  by (simp add: same_materialId_items_def map_material_def and_then_def or_randomUUID_def
      or_default_def js_def)

text \<open>
  C8, amended: for every N, mapping a list of N parsed materials that each lack the field
  \<^verbatim>\<open>materialId\<close> gives N \<^verbatim>\<open>Material\<close> records whose identifiers are, in order, the N
  identifiers the generator returns during the mapping; when the generator hands out
  pairwise different identifiers, the identifiers of the list are pairwise distinct.
\<close>

theorem generated_ids_distinct:
  "\<forall>m\<in>set xs. get_prop m (js ''materialId'') = Inr JUndefined \<Longrightarrow>
   \<exists>mats. map_items (map_material g) xs n = Inr (mats, n + length xs) \<and>
          length mats = length xs \<and>
          map m_id mats = map (\<lambda>k. JStr (Rep_uuid (g k))) [n..<n + length xs] \<and>
          (distinct (map g [n..<n + length xs]) \<longrightarrow> distinct (map m_id mats))"
proof -
  assume absent: "\<forall>m\<in>set xs. get_prop m (js ''materialId'') = Inr JUndefined"
  from map_items_fresh [OF absent, of g n] obtain mats
    where r: "map_items (map_material g) xs n = Inr (mats, n + length xs)"
      and ids: "map m_id mats = map (\<lambda>k. JStr (Rep_uuid (g k))) [n..<n + length xs]"
    by blast
  have shape: "map m_id mats = map (\<lambda>u. JStr (Rep_uuid u)) (map g [n..<n + length xs])"
    by (simp add: ids)
  have d: "distinct (map m_id mats)" if fresh: "distinct (map g [n..<n + length xs])"
  proof -
    have "distinct (map (\<lambda>u. JStr (Rep_uuid u)) (map g [n..<n + length xs]))"
      using fresh inj_uuid_string by (simp only: distinct_map) (blast intro: inj_on_subset)
    with shape show ?thesis by simp
  qed
  from ids have "length (map m_id mats) = length (map (\<lambda>k. JStr (Rep_uuid (g k))) [n..<n + length xs])"
    by simp
  then have "length mats = length xs" by simp
  with r ids d show ?thesis by blast
qed

lemma same_id_items_absent:
  "\<forall>m\<in>set same_id_items. get_prop m (js ''materialId'') = Inr JUndefined"
  by (simp add: same_id_items_def js_def)

lemma same_id_items_length: "length same_id_items = 2"
  by (simp add: same_id_items_def)

lemma same_id_items_fresh: "distinct (map demo_uuids [0..<0 + length same_id_items])"
  using demo_uuids_distinct by (simp only: same_id_items_length add_0)

lemma same_id_items_absent_all:
  "list_all (\<lambda>m. get_prop m (js ''materialId'') = Inr JUndefined) same_id_items"
  using same_id_items_absent by (simp add: list_all_iff)

theorem generated_ids_distinct_witness:
  "list_all (\<lambda>m. get_prop m (js ''materialId'') = Inr JUndefined) same_id_items \<and>
   length same_id_items = 2 \<and>
   distinct (map demo_uuids [0..<0 + length same_id_items]) \<and>
   (\<exists>mats. map_items (map_material demo_uuids) same_id_items 0 =
        Inr (mats, 0 + length same_id_items) \<and>
      length mats = length same_id_items \<and>
      map m_id mats =
        map (\<lambda>k. JStr (Rep_uuid (demo_uuids k))) [0..<0 + length same_id_items] \<and>
      distinct (map m_id mats))"
  using generated_ids_distinct [OF same_id_items_absent, of demo_uuids 0]
    same_id_items_absent_all same_id_items_fresh same_id_items_length
  by blast

text \<open>
  C9. When the service has answered with a text, the extraction, repair and parse of it give
  a value and the mapping of that value gives a record, the run stores this record as the
  estimate and calls \<^verbatim>\<open>onEstimationComplete\<close> once, with the same record. In every other
  run the callback is not called and no estimate is stored.
\<close>

theorem callback_once_on_success:
  "(\<forall>text p t k.
      response = Inr text \<and> extractAndParseJSON text = Inr p \<and> transform g p 0 = Inr (t, k) \<longrightarrow>
      analyzeProject engine g response st =
        st\<lparr>isLoading := False, error := [], estimation := Some t,
           delivered := delivered st @ [t]\<rparr>) \<and>
   ((\<nexists>text p t k.
      response = Inr text \<and> extractAndParseJSON text = Inr p \<and> transform g p 0 = Inr (t, k)) \<longrightarrow>
      delivered (analyzeProject engine g response st) = delivered st \<and>
      estimation (analyzeProject engine g response st) = None)"
  by (auto simp: analyzeProject_def try_body_def split: sum.splits prod.splits)

lemma shed_extract: "extractAndParseJSON shed_text = Inr shed_parsed"
  unfolding shed_text_def shed_parsed_def by code_simp

lemma shed_transform: "transform demo_uuids shed_parsed 0 = Inr (shed_details, 2)"
  by (simp add: shed_parsed_def shed_details_def transform_def and_then_def call_map_def
      map_material_def map_labor_def or_randomUUID_def randomUUID_def or_default_def
      demo_uuids_0 demo_uuids_1 js_def)

lemma no_object: "extractAndParseJSON (js ''Sorry, I cannot help.'') =
    Inl (ErrorObj (js ''JSON object not found.''))"
  by code_simp

theorem callback_once_on_success_witness:
  "extractAndParseJSON shed_text = Inr shed_parsed \<and>
   transform demo_uuids shed_parsed 0 = Inr (shed_details, 2) \<and>
   analyzeProject v8_message demo_uuids (Inr shed_text) initial_state =
     \<lparr>isLoading = False, error = [], estimation = Some shed_details, delivered = [shed_details]\<rparr> \<and>
   delivered (analyzeProject v8_message demo_uuids (Inr (js ''Sorry, I cannot help.'')) initial_state) = [] \<and>
   error (analyzeProject v8_message demo_uuids (Inr (js ''Sorry, I cannot help.'')) initial_state) =
     js ''JSON object not found.''"
proof -
  have ok: "analyzeProject v8_message demo_uuids (Inr shed_text) initial_state =
      initial_state\<lparr>isLoading := False, error := [], estimation := Some shed_details,
        delivered := delivered initial_state @ [shed_details]\<rparr>"
    using callback_once_on_success [of "Inr shed_text" demo_uuids v8_message initial_state]
      shed_extract shed_transform by blast
  have "\<nexists>text p t k. (Inr (js ''Sorry, I cannot help.'') :: thrown + jsstring) = Inr text \<and>
      extractAndParseJSON text = Inr p \<and> transform demo_uuids p 0 = Inr (t, k)"
    using no_object by auto
  then have ko: "delivered (analyzeProject v8_message demo_uuids
      (Inr (js ''Sorry, I cannot help.'')) initial_state) = delivered initial_state"
    using callback_once_on_success
      [of "Inr (js ''Sorry, I cannot help.'')" demo_uuids v8_message initial_state] by blast
  have msg: "error (analyzeProject v8_message demo_uuids (Inr (js ''Sorry, I cannot help.''))
      initial_state) = js ''JSON object not found.''"
    by (simp add: analyzeProject_def try_body_def no_object handler_message_def)
  show ?thesis
    using ok ko msg shed_extract shed_transform by (simp add: initial_state_def)
qed

text \<open>
  C10. The repair does not look at string literals. In any text, the first \<^verbatim>\<open>//\<close> and all
  that follows it up to the end of the line are deleted while the text before it stays;
  what follows any \<^verbatim>\<open>//\<close> up to the end of its line never reaches the repaired text, and
  no \<^verbatim>\<open>//\<close> is left in it. So a candidate that is valid JSON can be spoilt: a string value
  that holds a URL loses its end and the text no longer parses (the outcome is \<^verbatim>\<open>null\<close>),
  and a string value in which a LINE SEPARATOR follows the \<^verbatim>\<open>//\<close> parses to another value.
\<close>

theorem repair_reaches_into_strings:
  \<open>(\<forall>pre rest. \<not> has_double_slash (pre @ [slash]) \<longrightarrow>
      strip_comments (pre @ slash # slash # rest) =
        pre @ strip_comments (dropWhile (\<lambda>x. \<not> isLineTerminator x) rest)) \<and>
   (\<forall>pre rest.
      strip_comments (pre @ slash # slash # rest) =
        strip_comments (pre @ [slash, slash]) @
        strip_comments (dropWhile (\<lambda>x. \<not> isLineTerminator x) rest)) \<and>
   \<not> has_double_slash (strip_comments s) \<and>
   JSON_parse (js ''{"description":"see https://example.com"}'') =
     Some (JObj [(js ''description'', JStr (js ''see https://example.com''))]) \<and>
   repair (js ''{"description":"see https://example.com"}'') = js ''{"description":"see https:'' \<and>
   extractAndParseJSON (js ''{"description":"see https://example.com"}'') = Inr JNull \<and>
   JSON_parse (js ''{"description":"wiki //draft'' @ [0x2028] @ js ''rev 2"}'') =
     Some (JObj [(js ''description'', JStr (js ''wiki //draft'' @ [0x2028] @ js ''rev 2''))]) \<and>
   extractAndParseJSON (js ''{"description":"wiki //draft'' @ [0x2028] @ js ''rev 2"}'') =
     Inr (JObj [(js ''description'', JStr (js ''wiki '' @ [0x2028] @ js ''rev 2''))])\<close>
proof -
  have gen: "\<forall>pre rest. \<not> has_double_slash (pre @ [slash]) \<longrightarrow>
      strip_comments (pre @ slash # slash # rest) =
        pre @ strip_comments (dropWhile (\<lambda>x. \<not> isLineTerminator x) rest)"
    using strip_comments_first by blast
  have ex: \<open>JSON_parse (js ''{"description":"see https://example.com"}'') =
     Some (JObj [(js ''description'', JStr (js ''see https://example.com''))]) \<and>
   repair (js ''{"description":"see https://example.com"}'') = js ''{"description":"see https:'' \<and>
   extractAndParseJSON (js ''{"description":"see https://example.com"}'') = Inr JNull \<and>
   JSON_parse (js ''{"description":"wiki //draft'' @ [0x2028] @ js ''rev 2"}'') =
     Some (JObj [(js ''description'', JStr (js ''wiki //draft'' @ [0x2028] @ js ''rev 2''))]) \<and>
   extractAndParseJSON (js ''{"description":"wiki //draft'' @ [0x2028] @ js ''rev 2"}'') =
     Inr (JObj [(js ''description'', JStr (js ''wiki '' @ [0x2028] @ js ''rev 2''))])\<close>
    by code_simp
  have every: "\<forall>pre rest.
      strip_comments (pre @ slash # slash # rest) =
        strip_comments (pre @ [slash, slash]) @
        strip_comments (dropWhile (\<lambda>x. \<not> isLineTerminator x) rest)"
    using strip_comments_any by blast
  have none_left: "\<not> has_double_slash (strip_comments s)"
    by (rule strip_comments_no_double_slash)
  from gen every none_left ex show ?thesis by blast
qed

lemma url_prefix: \<open>\<not> has_double_slash (js ''{"description":"see https:'' @ [slash])\<close>
  by code_simp

theorem repair_reaches_into_strings_witness:
  \<open>\<not> has_double_slash (js ''{"description":"see https:'' @ [slash]) \<and>
   strip_comments (js ''{"description":"see https:'' @ slash # slash # js ''example.com"}'') =
     js ''{"description":"see https:''\<close>
proof -
  have \<open>strip_comments (js ''{"description":"see https:'' @ slash # slash # js ''example.com"}'') =
     js ''{"description":"see https:'' @
       strip_comments (dropWhile (\<lambda>x. \<not> isLineTerminator x) (js ''example.com"}''))\<close>
    using repair_reaches_into_strings url_prefix by blast
  moreover
  have \<open>strip_comments (dropWhile (\<lambda>x. \<not> isLineTerminator x) (js ''example.com"}'')) = []\<close>
    by code_simp
  ultimately show ?thesis using url_prefix by simp
qed

end
